theory Spec2Isabelle
  imports Main
begin

section \<open>Port Daddy: the port registry of server.js\<close>

text \<open>
  The daemon of \<^verbatim>\<open>server.js\<close> keeps one table, \<^verbatim>\<open>port_assignments\<close>, and answers
  HTTP requests in handlers that run to completion: every call they make (better-sqlite3,
  \<^verbatim>\<open>spawnSync\<close>) is synchronous, so Node runs one handler at a time and requests that
  arrive together are served one after the other.

  What a handler reads from outside the process is gathered in an environment: the clock,
  the answers of \<^verbatim>\<open>ps\<close> and \<^verbatim>\<open>lsof\<close>, the daemon's own pid. One environment
  stands for the duration of one handler; successive handlers get their own.
  Logging and the metrics counters do not influence any response and are left out, and so
  is the middleware in front of the handlers (rate limit, CORS, the parser of the body and
  its size limit): the handlers are modelled from the parsed body on.
\<close>

subsection \<open>Configuration and environment\<close>

record config =
  range_start :: int
  range_end :: int
  reserved :: "int list"

text \<open>The configuration used when no \<^verbatim>\<open>config.json\<close> is present.\<close>

definition default_config :: config where
  "default_config = \<lparr>range_start = 3100, range_end = 9999, reserved = [8080, 8000, 9876]\<rparr>"

text \<open>One entry of the parsed output of \<^verbatim>\<open>lsof -i -P -n -sTCP:LISTEN\<close>.\<close>

record system_port =
  sp_port :: int
  sp_pid :: int
  command :: string
  user :: string

text \<open>
  \<open>ps_alive p\<close>: \<^verbatim>\<open>ps -p p\<close> exits with status 0.
  \<open>lsof_port p\<close>: \<^verbatim>\<open>lsof -i :p -sTCP:LISTEN\<close> exits with status 0 and prints something.
  \<open>lsof_scan\<close>: the entries parsed from the full scan (at most 1000 lines), or \<open>None\<close>
  when the scan fails.
\<close>

record env =
  now :: int
  ps_alive :: "int \<Rightarrow> bool"
  lsof_port :: "int \<Rightarrow> bool"
  lsof_scan :: "system_port list option"
  process_pid :: int

subsection \<open>Request parameters and responses\<close>

text \<open>
  A numeric parameter as the validators see it: missing, \<^verbatim>\<open>null\<close>, or a value on which
  \<^verbatim>\<open>parseInt(value, 10)\<close> gives \<^verbatim>\<open>NaN\<close> or an integer. The validators look at a
  value in no other way, so \<open>NaN\<close> and \<open>Num n\<close> stand for all values that parse so.
\<close>

datatype param = Undefined | Null | NaN | Num int

text \<open>The \<^verbatim>\<open>project\<close> field of a body: missing, not a string, or a string.\<close>

datatype project_param = NoProject | NotAString | Str string

datatype error =
    ProjectNotNonEmptyString
  | ProjectTooLong
  | ProjectInvalidChars
  | PidOutOfRange
  | PortOutOfRange
  | PreferredOutOfRange int int
  | PreferredReserved
  | PortOrProjectRequired
  | NoAvailablePorts
  | FailedAfterRetries

text \<open>The message texts, with the values the template strings interpolate.\<close>

datatype message =
    ExistingRenewed
  | AssignedPreferred
  | AssignedSuccessfully
  | ReleasedPort "int option"
  | ReleasedForProject nat string

text \<open>
  \<open>PortReply port message existing\<close> is the JSON body \<^verbatim>\<open>{port, message, existing}\<close>
  sent with status 200, \<open>existing\<close> being \<open>None\<close> when the body has no such field;
  \<open>ReleaseReply message\<close> is \<^verbatim>\<open>{success: true, message}\<close>, status 200;
  \<open>Rejected\<close> is status 400 and \<open>Failed\<close> status 500, both \<^verbatim>\<open>{error}\<close>.
\<close>

datatype response =
    PortReply int message "bool option"
  | ReleaseReply message
  | Rejected error
  | Failed error

fun status :: "response \<Rightarrow> nat" where
  "status (PortReply _ _ _) = 200"
| "status (ReleaseReply _) = 200"
| "status (Rejected _) = 400"
| "status (Failed _) = 500"

record claim_request =
  req_project :: project_param
  req_preferred :: param
  x_pid :: param

record release_request =
  rel_port :: param
  rel_project :: project_param

subsection \<open>Input validation\<close>

definition PROJECT_NAME_MAX_LENGTH :: nat where "PROJECT_NAME_MAX_LENGTH = 255"
definition PID_MIN :: int where "PID_MIN = 1"
definition PID_MAX :: int where "PID_MAX = 99999"

text \<open>The character class \<^verbatim>\<open>[a-zA-Z0-9._-]\<close>.\<close>

definition name_char :: "char \<Rightarrow> bool" where
  "name_char c =
     (let n = (of_char c :: nat) in
        (97 \<le> n \<and> n \<le> 122) \<or> (65 \<le> n \<and> n \<le> 90) \<or> (48 \<le> n \<and> n \<le> 57)
        \<or> c = CHR ''.'' \<or> c = CHR ''_'' \<or> c = CHR ''-'')"

text \<open>\<^verbatim>\<open>/^[a-zA-Z0-9._-]+$/.test(s)\<close>\<close>

definition PROJECT_NAME_REGEX :: "string \<Rightarrow> bool" where
  "PROJECT_NAME_REGEX s = (s \<noteq> [] \<and> list_all name_char s)"

fun validateProjectName :: "project_param \<Rightarrow> error + string" where
  "validateProjectName (Str s) =
     (if s = [] then Inl ProjectNotNonEmptyString
      else if length s > PROJECT_NAME_MAX_LENGTH then Inl ProjectTooLong
      else if \<not> PROJECT_NAME_REGEX s then Inl ProjectInvalidChars
      else Inr s)"
| "validateProjectName _ = Inl ProjectNotNonEmptyString"

fun validatePid :: "param \<Rightarrow> error + int option" where
  "validatePid Undefined = Inr None"
| "validatePid Null = Inr None"
| "validatePid NaN = Inl PidOutOfRange"
| "validatePid (Num pid) =
     (if pid < PID_MIN \<or> pid > PID_MAX then Inl PidOutOfRange else Inr (Some pid))"

fun validatePort :: "param \<Rightarrow> error + int option" where
  "validatePort Undefined = Inr None"
| "validatePort Null = Inr None"
| "validatePort NaN = Inl PortOutOfRange"
| "validatePort (Num port) =
     (if port < 1 \<or> port > 65535 then Inl PortOutOfRange else Inr (Some port))"

definition validatePreferredPort :: "param \<Rightarrow> int \<Rightarrow> int \<Rightarrow> int list \<Rightarrow> error + int option" where
  "validatePreferredPort portValue rangeStart rangeEnd reservedPorts =
     (case validatePort portValue of
        Inl e \<Rightarrow> Inl e
      | Inr None \<Rightarrow> Inr None
      | Inr (Some port) \<Rightarrow>
          if port < rangeStart \<or> port > rangeEnd then Inl (PreferredOutOfRange rangeStart rangeEnd)
          else if port \<in> set reservedPorts then Inl PreferredReserved
          else Inr (Some port))"

subsection \<open>The table\<close>

text \<open>
  A row of \<^verbatim>\<open>port_assignments\<close>. The column \<open>port\<close> is the INTEGER PRIMARY KEY, so it
  is the rowid: the table is kept as the list of its rows in rowid order, and an insert of
  a port that is already there fails with SQLITE_CONSTRAINT_PRIMARYKEY (\<open>None\<close>).
\<close>

record row =
  port :: int
  project :: string
  pid :: int
  started :: int
  last_seen :: int

type_synonym table = "row list"

definition getByProject :: "table \<Rightarrow> string \<Rightarrow> row option" where
  "getByProject t p = find (\<lambda>r. project r = p) t"

definition getByPort :: "table \<Rightarrow> int option \<Rightarrow> row option" where
  "getByPort t p = (case p of None \<Rightarrow> None | Some n \<Rightarrow> find (\<lambda>r. port r = n) t)"

definition getAllPorts :: "table \<Rightarrow> int list" where
  "getAllPorts t = map port t"

fun insert_row :: "row \<Rightarrow> table \<Rightarrow> table" where
  "insert_row r [] = [r]"
| "insert_row r (x # xs) = (if port r < port x then r # x # xs else x # insert_row r xs)"

definition stmts_insert :: "row \<Rightarrow> table \<Rightarrow> table option" where
  "stmts_insert r t = (if port r \<in> set (map port t) then None else Some (insert_row r t))"

definition updateLastSeen :: "int \<Rightarrow> int \<Rightarrow> table \<Rightarrow> table" where
  "updateLastSeen ts p t = map (\<lambda>r. if port r = p then r\<lparr>last_seen := ts\<rparr> else r) t"

text \<open>A \<^verbatim>\<open>null\<close> port compares equal to no row.\<close>

definition deleteByPort :: "int option \<Rightarrow> table \<Rightarrow> table" where
  "deleteByPort p t = (case p of None \<Rightarrow> t | Some n \<Rightarrow> filter (\<lambda>r. port r \<noteq> n) t)"

text \<open>\<^verbatim>\<open>deleteByProject\<close> returns the table and \<^verbatim>\<open>result.changes\<close>.\<close>

definition deleteByProject :: "string \<Rightarrow> table \<Rightarrow> table \<times> nat" where
  "deleteByProject p t = (filter (\<lambda>r. project r \<noteq> p) t, length (filter (\<lambda>r. project r = p) t))"

subsection \<open>State of the daemon\<close>

record cache =
  data :: "system_port list option"
  timestamp :: int

record state =
  db :: table
  systemPortsCache :: cache

definition initial_state :: state where
  "initial_state = \<lparr>db = [], systemPortsCache = \<lparr>data = None, timestamp = 0\<rparr>\<rparr>"

definition SYSTEM_PORTS_CACHE_TTL :: int where "SYSTEM_PORTS_CACHE_TTL = 2000"

definition isProcessAlive :: "env \<Rightarrow> int \<Rightarrow> bool" where
  "isProcessAlive e p = ps_alive e p"

definition isPortInUseOnSystem :: "env \<Rightarrow> int \<Rightarrow> bool" where
  "isPortInUseOnSystem e p = lsof_port e p"

text \<open>The filter with the \<^verbatim>\<open>seen\<close> set: the first entry of every port is kept.\<close>

fun dedup :: "int list \<Rightarrow> system_port list \<Rightarrow> system_port list" where
  "dedup seen [] = []"
| "dedup seen (p # ps) =
     (if sp_port p \<in> set seen then dedup seen ps else p # dedup (sp_port p # seen) ps)"

definition getSystemPorts :: "env \<Rightarrow> state \<Rightarrow> system_port list \<times> state" where
  "getSystemPorts e st =
     (let c = systemPortsCache st in
      case data c of
        Some d \<Rightarrow>
          if now e - timestamp c < SYSTEM_PORTS_CACHE_TTL then (d, st)
          else (case lsof_scan e of
                  None \<Rightarrow> (d, st)
                | Some ports \<Rightarrow>
                    (let deduplicated = sort_key sp_port (dedup [] ports)
                     in (deduplicated,
                         st\<lparr>systemPortsCache := \<lparr>data = Some deduplicated, timestamp = now e\<rparr>\<rparr>)))
      | None \<Rightarrow>
          (case lsof_scan e of
             None \<Rightarrow> ([], st)
           | Some ports \<Rightarrow>
               (let deduplicated = sort_key sp_port (dedup [] ports)
                in (deduplicated,
                    st\<lparr>systemPortsCache := \<lparr>data = Some deduplicated, timestamp = now e\<rparr>\<rparr>))))"

subsection \<open>Finding a free port\<close>

text \<open>
  The \<^verbatim>\<open>for\<close> loop of \<^verbatim>\<open>findAvailablePort\<close>: the first port from \<open>p\<close> up to \<open>hi\<close>
  that passes the test, \<open>None\<close> when the loop runs out (the function then throws).
\<close>

function scan_range :: "(int \<Rightarrow> bool) \<Rightarrow> int \<Rightarrow> int \<Rightarrow> int option" where
  "scan_range free p hi =
     (if p \<le> hi then (if free p then Some p else scan_range free (p + 1) hi) else None)"
  by pat_completeness auto
termination
  by (relation "measure (\<lambda>(free, p, hi). nat (hi + 1 - p))") auto

declare scan_range.simps [simp del]

definition findAvailablePort :: "config \<Rightarrow> env \<Rightarrow> state \<Rightarrow> int option \<times> state" where
  "findAvailablePort cfg e st =
     (let dbUsed = getAllPorts (db st);
          (sys, st') = getSystemPorts e st;
          systemPorts = map sp_port sys;
          usedSet = dbUsed @ systemPorts @ reserved cfg
      in (scan_range (\<lambda>p. p \<notin> set usedSet \<and> \<not> isPortInUseOnSystem e p)
            (range_start cfg) (range_end cfg), st'))"

subsection \<open>Assignment with retry\<close>

text \<open>JavaScript truthiness of a port that is \<^verbatim>\<open>null\<close> or a number.\<close>

fun truthy :: "int option \<Rightarrow> bool" where
  "truthy None = False"
| "truthy (Some n) = (n \<noteq> 0)"

text \<open>
  How one pass through the body of the retry loop ends: it returns the port, it throws an
  error that the \<^verbatim>\<open>catch\<close> rethrows, or it continues with a new \<^verbatim>\<open>preferredPort\<close>.
\<close>

datatype outcome = Return int | Throw error | Continue "int option"

text \<open>\<^verbatim>\<open>if (preferredPort) { port = findAvailablePort(); preferredPort = null; } continue;\<close>\<close>

definition skip_port :: "config \<Rightarrow> env \<Rightarrow> int option \<Rightarrow> state \<Rightarrow> outcome \<times> state" where
  "skip_port cfg e preferredPort st =
     (if truthy preferredPort then
        (case findAvailablePort cfg e st of
           (None, st') \<Rightarrow> (Throw NoAvailablePorts, st')
         | (Some _, st') \<Rightarrow> (Continue None, st'))
      else (Continue preferredPort, st))"

text \<open>The part of the loop body after the row of the port, if any, was found stale and deleted.\<close>

definition try_insert ::
  "config \<Rightarrow> env \<Rightarrow> string \<Rightarrow> int \<Rightarrow> int option \<Rightarrow> int \<Rightarrow> state \<Rightarrow> outcome \<times> state" where
  "try_insert cfg e proj requestingPid preferredPort p st =
     (if isPortInUseOnSystem e p then skip_port cfg e preferredPort st
      else
        (case stmts_insert \<lparr>port = p, project = proj, pid = requestingPid,
                       started = now e, last_seen = now e\<rparr> (db st) of
           Some t \<Rightarrow> (Return p, st\<lparr>db := t\<rparr>)
         | None \<Rightarrow> (Continue None, st)))"

definition attempt_body ::
  "config \<Rightarrow> env \<Rightarrow> string \<Rightarrow> int \<Rightarrow> int option \<Rightarrow> state \<Rightarrow> outcome \<times> state" where
  "attempt_body cfg e proj requestingPid preferredPort st =
     (case (if truthy preferredPort then (preferredPort, st) else findAvailablePort cfg e st) of
        (None, st1) \<Rightarrow> (Throw NoAvailablePorts, st1)
      | (Some p, st1) \<Rightarrow>
          (case getByPort (db st1) (Some p) of
             Some existing \<Rightarrow>
               if isProcessAlive e (pid existing) then skip_port cfg e preferredPort st1
               else try_insert cfg e proj requestingPid preferredPort p
                      (st1\<lparr>db := deleteByPort (Some p) (db st1)\<rparr>)
           | None \<Rightarrow> try_insert cfg e proj requestingPid preferredPort p st1))"

text \<open>
  The loop itself, \<open>k\<close> passes left and \<open>attempt\<close> passes done. A success returns the port
  and the number of retries.
\<close>

fun retry_loop ::
  "config \<Rightarrow> env \<Rightarrow> string \<Rightarrow> int \<Rightarrow> nat \<Rightarrow> nat \<Rightarrow> int option \<Rightarrow> state
     \<Rightarrow> (error + int \<times> nat) \<times> state" where
  "retry_loop cfg e proj requestingPid 0 attempt preferredPort st = (Inl FailedAfterRetries, st)"
| "retry_loop cfg e proj requestingPid (Suc k) attempt preferredPort st =
     (case attempt_body cfg e proj requestingPid preferredPort st of
        (Return p, st') \<Rightarrow> (Inr (p, attempt), st')
      | (Throw err, st') \<Rightarrow> (Inl err, st')
      | (Continue preferredPort', st') \<Rightarrow>
          retry_loop cfg e proj requestingPid k (Suc attempt) preferredPort' st')"

definition assignPortWithRetry ::
  "config \<Rightarrow> env \<Rightarrow> string \<Rightarrow> int option \<Rightarrow> int \<Rightarrow> state \<Rightarrow> (error + int \<times> nat) \<times> state" where
  "assignPortWithRetry cfg e proj preferredPort requestingPid st =
     retry_loop cfg e proj requestingPid 3 0 preferredPort st"

subsection \<open>Stale cleanup\<close>

text \<open>
  \<^verbatim>\<open>cleanupStale\<close> reads all rows first and then walks over that snapshot, deleting by
  port in the live table. It returns the freed (port, project) pairs.
\<close>

fun cleanup_loop :: "env \<Rightarrow> row list \<Rightarrow> table \<Rightarrow> (int \<times> string) list \<Rightarrow> table \<times> (int \<times> string) list" where
  "cleanup_loop e [] t freed = (t, freed)"
| "cleanup_loop e (entry # entries) t freed =
     (if \<not> isProcessAlive e (pid entry)
      then cleanup_loop e entries (deleteByPort (Some (port entry)) t)
             (freed @ [(port entry, project entry)])
      else cleanup_loop e entries t freed)"

definition cleanupStale :: "env \<Rightarrow> state \<Rightarrow> (int \<times> string) list \<times> state" where
  "cleanupStale e st =
     (case cleanup_loop e (db st) (db st) [] of (t, freed) \<Rightarrow> (freed, st\<lparr>db := t\<rparr>))"

subsection \<open>The handlers\<close>

text \<open>The part of \<^verbatim>\<open>POST /ports/request\<close> that follows the lookup by project.\<close>

definition assign_fresh ::
  "config \<Rightarrow> env \<Rightarrow> string \<Rightarrow> int \<Rightarrow> int option \<Rightarrow> state \<Rightarrow> response \<times> state" where
  "assign_fresh cfg e proj requestingPid validPort st =
     (let portToTry =
            (case validPort of
               None \<Rightarrow> None
             | Some p \<Rightarrow> if p \<noteq> 0 \<and> isPortInUseOnSystem e p then None else Some p)
      in case assignPortWithRetry cfg e proj portToTry requestingPid st of
           (Inl err, st') \<Rightarrow> (Failed err, st')
         | (Inr (p, retries), st') \<Rightarrow>
             (PortReply p
                (if truthy validPort \<and> validPort = Some p then AssignedPreferred
                 else AssignedSuccessfully) None, st'))"

definition ports_request :: "config \<Rightarrow> env \<Rightarrow> claim_request \<Rightarrow> state \<Rightarrow> response \<times> state" where
  "ports_request cfg e req st =
     (case validateProjectName (req_project req) of
        Inl err \<Rightarrow> (Rejected err, st)
      | Inr proj \<Rightarrow>
     (case validatePid (x_pid req) of
        Inl err \<Rightarrow> (Rejected err, st)
      | Inr validPid \<Rightarrow>
     (let requestingPid =
            (case validPid of None \<Rightarrow> process_pid e
             | Some n \<Rightarrow> if n \<noteq> 0 then n else process_pid e) in
      case validatePreferredPort (req_preferred req) (range_start cfg) (range_end cfg) (reserved cfg) of
        Inl err \<Rightarrow> (Rejected err, st)
      | Inr validPort \<Rightarrow>
     (case getByProject (db st) proj of
        Some existing \<Rightarrow>
          if isProcessAlive e (pid existing) then
            (PortReply (port existing) ExistingRenewed (Some True),
             st\<lparr>db := updateLastSeen (now e) (port existing) (db st)\<rparr>)
          else assign_fresh cfg e proj requestingPid validPort
                 (st\<lparr>db := deleteByPort (Some (port existing)) (db st)\<rparr>)
      | None \<Rightarrow> assign_fresh cfg e proj requestingPid validPort st))))"

definition ports_release :: "release_request \<Rightarrow> state \<Rightarrow> response \<times> state" where
  "ports_release req st =
     (if rel_port req \<noteq> Undefined then
        (case validatePort (rel_port req) of
           Inl err \<Rightarrow> (Rejected err, st)
         | Inr p \<Rightarrow> (ReleaseReply (ReleasedPort p), st\<lparr>db := deleteByPort p (db st)\<rparr>))
      else if rel_project req \<noteq> NoProject then
        (case validateProjectName (rel_project req) of
           Inl err \<Rightarrow> (Rejected err, st)
         | Inr proj \<Rightarrow>
             (case deleteByProject proj (db st) of
                (t, changes) \<Rightarrow> (ReleaseReply (ReleasedForProject changes proj), st\<lparr>db := t\<rparr>)))
      else (Rejected PortOrProjectRequired, st))"

subsection \<open>Runs of the daemon\<close>

text \<open>
  What happens to the table over time: claims, releases and cleanup sweeps (the timer and
  \<^verbatim>\<open>POST /ports/cleanup\<close>), in any order, each under the environment of its moment.
  Handlers run one at a time, so requests that arrive together appear here in the order in
  which Node serves them.
\<close>

datatype operation = Claim claim_request | Release release_request | Cleanup

fun step :: "config \<Rightarrow> state \<Rightarrow> env \<times> operation \<Rightarrow> state" where
  "step cfg st (e, Claim req) = snd (ports_request cfg e req st)"
| "step cfg st (e, Release req) = snd (ports_release req st)"
| "step cfg st (e, Cleanup) = snd (cleanupStale e st)"

definition run :: "config \<Rightarrow> (env \<times> operation) list \<Rightarrow> state" where
  "run cfg ops = foldl (step cfg) initial_state ops"

section \<open>The hierarchical changelog of lib/changelog.ts\<close>

subsection \<open>Identities\<close>

text \<open>\<^verbatim>\<open>s.split(c)\<close> for a separator of one character; the empty string gives one empty piece.\<close>

fun split_on :: "char \<Rightarrow> string \<Rightarrow> string list" where
  "split_on c [] = [[]]"
| "split_on c (x # xs) =
     (if x = c then [] # split_on c xs
      else (case split_on c xs of [] \<Rightarrow> [[x]] | s # ss \<Rightarrow> (x # s) # ss))"

text \<open>\<^verbatim>\<open>s.lastIndexOf(c)\<close>, \<open>-1\<close> when \<open>c\<close> does not occur.\<close>

definition lastIndexOf :: "string \<Rightarrow> char \<Rightarrow> int" where
  "lastIndexOf s c =
     (if c \<in> set s then int (length s) - 1 - int (length (takeWhile (\<lambda>x. x \<noteq> c) (rev s)))
      else - 1)"

definition getParentIdentity :: "string \<Rightarrow> string option" where
  "getParentIdentity identity =
     (let lastColon = lastIndexOf identity CHR '':''
      in if lastColon = - 1 then None else Some (take (nat lastColon) identity))"

text \<open>
  The \<^verbatim>\<open>while (current)\<close> loop of \<^verbatim>\<open>getAncestors\<close>; it stops at \<^verbatim>\<open>null\<close> and at
  the empty string, which is falsy as well.
\<close>

function ancestors_loop :: "string option \<Rightarrow> string list \<Rightarrow> string list" where
  "ancestors_loop None ancestors = ancestors"
| "ancestors_loop (Some current) ancestors =
     (if current = [] then ancestors
      else ancestors_loop (getParentIdentity current) (ancestors @ [current]))"
  by pat_completeness auto
termination
proof (relation "measure (\<lambda>(current, ancestors). case current of None \<Rightarrow> 0 | Some c \<Rightarrow> Suc (length c))")
  show "wf (measure (\<lambda>(current, ancestors). case current of None \<Rightarrow> 0 | Some c \<Rightarrow> Suc (length c)))"
    by simp
next
  fix current :: string and ancestors :: "string list"
  assume nonempty: "current \<noteq> []"
  have "length d < length current" if "getParentIdentity current = Some d" for d
  proof -
    from that have "d = take (nat (lastIndexOf current CHR '':'')) current"
      by (simp add: getParentIdentity_def Let_def split: if_splits)
    moreover have "lastIndexOf current CHR '':'' < int (length current)"
      by (simp add: lastIndexOf_def)
    moreover have "0 < length current"
      using nonempty by simp
    ultimately have "d = take (nat (lastIndexOf current CHR '':'')) current"
      and "nat (lastIndexOf current CHR '':'') < length current"
      by linarith+
    then show ?thesis by simp
  qed
  then show "((getParentIdentity current, ancestors @ [current]), (Some current, ancestors))
      \<in> measure (\<lambda>(current, ancestors). case current of None \<Rightarrow> 0 | Some c \<Rightarrow> Suc (length c))"
    by (simp split: option.splits)
qed

definition getAncestors :: "string \<Rightarrow> string list" where
  "getAncestors identity = ancestors_loop (getParentIdentity identity) []"

definition getDepth :: "string \<Rightarrow> nat" where
  "getDepth identity = length (split_on CHR '':'' identity)"

text \<open>\<^verbatim>\<open>s.startsWith(p)\<close>\<close>

definition startsWith :: "string \<Rightarrow> string \<Rightarrow> bool" where
  "startsWith s p = (take (length p) s = p)"

subsection \<open>The table and its queries\<close>

text \<open>
  A row of the table \<^verbatim>\<open>changelog\<close>. \<^verbatim>\<open>formatEntry\<close> copies a row field by field into
  the entry that is returned (parsing the metadata text), so results are given as rows.
\<close>

record changelog_row =
  row_id :: int
  identity :: string
  session_id :: "string option"
  agent_id :: "string option"
  row_type :: string
  summary :: string
  description :: "string option"
  metadata :: "string option"
  created_at :: int

text \<open>The rows in rowid order, and the largest id given out so far (AUTOINCREMENT).\<close>

record changelog =
  rows :: "changelog_row list"
  last_id :: int

definition empty_changelog :: changelog where
  "empty_changelog = \<lparr>rows = [], last_id = 0\<rparr>"

text \<open>
  SQLite's \<^verbatim>\<open>LIKE\<close> without \<^verbatim>\<open>ESCAPE\<close>: \<^verbatim>\<open>%\<close> stands for any run of characters,
  \<^verbatim>\<open>_\<close> for any one character, and letters of ASCII compare without regard to case.
\<close>

definition lower :: "char \<Rightarrow> char" where
  "lower c = (let n = (of_char c :: nat) in if 65 \<le> n \<and> n \<le> 90 then char_of (n + 32) else c)"

fun like :: "string \<Rightarrow> string \<Rightarrow> bool" where
  "like [] [] = True"
| "like [] (c # s) = False"
| "like (p # ps) [] = (p = CHR ''%'' \<and> like ps [])"
| "like (p # ps) (c # s) =
     (if p = CHR ''%'' then like ps (c # s) \<or> like (p # ps) s
      else (p = CHR ''_'' \<or> lower p = lower c) \<and> like ps s)"

text \<open>\<^verbatim>\<open>LIMIT n\<close>; a negative \<open>n\<close> is no limit.\<close>

definition limit_rows :: "int \<Rightarrow> 'a list \<Rightarrow> 'a list" where
  "limit_rows n xs = (if n < 0 then xs else take (nat n) xs)"

text \<open>
  \<^verbatim>\<open>ORDER BY created_at DESC\<close>. SQL leaves the order of rows with equal \<open>created_at\<close>
  open; here they stay in rowid order.
\<close>

definition order_by_created_desc :: "changelog_row list \<Rightarrow> changelog_row list" where
  "order_by_created_desc rs = sort_key (\<lambda>r. - created_at r) rs"

definition listByPrefix :: "changelog \<Rightarrow> string \<Rightarrow> int \<Rightarrow> changelog_row list" where
  "listByPrefix cl pattern n =
     limit_rows n (order_by_created_desc (filter (\<lambda>r. like pattern (identity r)) (rows cl)))"

definition listByIdentity :: "changelog \<Rightarrow> string \<Rightarrow> int \<Rightarrow> changelog_row list" where
  "listByIdentity cl i n =
     limit_rows n (order_by_created_desc (filter (\<lambda>r. identity r = i) (rows cl)))"

subsection \<open>Operations\<close>

record add_options =
  opt_identity :: string
  opt_summary :: string
  opt_type :: "string option"
  opt_description :: "string option"
  opt_sessionId :: "string option"
  opt_agentId :: "string option"
  opt_metadata :: "string option"

record add_result =
  added_id :: int
  added_identity :: string
  ancestors :: "string list"

text \<open>\<^verbatim>\<open>x || null\<close> on an optional string: the empty string is falsy.\<close>

definition or_null :: "string option \<Rightarrow> string option" where
  "or_null x = (case x of None \<Rightarrow> None | Some s \<Rightarrow> if s = [] then None else Some s)"

definition add :: "int \<Rightarrow> add_options \<Rightarrow> changelog \<Rightarrow> add_result \<times> changelog" where
  "add created options cl =
     (let new_id = last_id cl + 1;
          r = \<lparr>row_id = new_id, identity = opt_identity options,
               session_id = or_null (opt_sessionId options),
               agent_id = or_null (opt_agentId options),
               row_type = (case or_null (opt_type options) of None \<Rightarrow> ''feature'' | Some t \<Rightarrow> t),
               summary = opt_summary options,
               description = or_null (opt_description options),
               metadata = opt_metadata options,
               created_at = created\<rparr>
      in (\<lparr>added_id = new_id, added_identity = opt_identity options,
           ancestors = getAncestors (opt_identity options)\<rparr>,
          \<lparr>rows = rows cl @ [r], last_id = new_id\<rparr>))"

record listing =
  listed_identity :: string
  entries :: "changelog_row list"
  count :: nat

text \<open>\<^verbatim>\<open>list\<close> and \<^verbatim>\<open>listTree\<close>; the limit is \<open>None\<close> when the argument is left out.\<close>

definition list_exact :: "changelog \<Rightarrow> string \<Rightarrow> int option \<Rightarrow> listing" where
  "list_exact cl i lim =
     (let rs = listByIdentity cl i (case lim of None \<Rightarrow> 50 | Some n \<Rightarrow> n)
      in \<lparr>listed_identity = i, entries = rs, count = length rs\<rparr>)"

definition listTree :: "changelog \<Rightarrow> string \<Rightarrow> int option \<Rightarrow> listing" where
  "listTree cl i lim =
     (let rs = listByPrefix cl (i @ ''%'') (case lim of None \<Rightarrow> 100 | Some n \<Rightarrow> n)
      in \<lparr>listed_identity = i, entries = rs, count = length rs\<rparr>)"

subsection \<open>Rollup\<close>

datatype rollup_entry =
  RollupEntry (node_identity: string) (node_entries: "changelog_row list")
    (children: "rollup_entry list")

text \<open>
  The \<^verbatim>\<open>Map\<close> from identity to entries, as the list of its pairs in the order in which
  the keys were first set.
\<close>

type_synonym by_identity = "(string \<times> changelog_row list) list"

fun map_set :: "string \<Rightarrow> changelog_row list \<Rightarrow> by_identity \<Rightarrow> by_identity" where
  "map_set k v [] = [(k, v)]"
| "map_set k v ((k', v') # m) = (if k' = k then (k, v) # m else (k', v') # map_set k v m)"

definition map_get_or_empty :: "by_identity \<Rightarrow> string \<Rightarrow> changelog_row list" where
  "map_get_or_empty m k = (case map_of m k of None \<Rightarrow> [] | Some v \<Rightarrow> v)"

definition group_by_identity :: "changelog_row list \<Rightarrow> by_identity" where
  "group_by_identity allEntries =
     foldl (\<lambda>m entry. map_set (identity entry) (map_get_or_empty m (identity entry) @ [entry]) m)
       [] allEntries"

function buildNode :: "by_identity \<Rightarrow> string \<Rightarrow> rollup_entry" where
  "buildNode byIdentity i =
     RollupEntry i (map_get_or_empty byIdentity i)
       (map (buildNode byIdentity)
          (filter (\<lambda>k. startsWith k (i @ '':'') \<and> getDepth k = getDepth i + 1)
             (map fst byIdentity)))"
  by pat_completeness auto
termination
proof (relation "measure (\<lambda>(m, i). Suc (Max (Set.insert 0 (getDepth ` fst ` set m))) - getDepth i)")
  show "wf (measure (\<lambda>(m, i). Suc (Max (Set.insert 0 (getDepth ` fst ` set m))) - getDepth i))"
    by simp
next
  fix byIdentity :: by_identity and i k :: string
  assume "k \<in> set (filter (\<lambda>k. startsWith k (i @ '':'') \<and> getDepth k = getDepth i + 1)
                      (map fst byIdentity))"
  then have k: "k \<in> fst ` set byIdentity" and d: "getDepth k = getDepth i + 1"
    by auto
  from k have "getDepth k \<le> Max (Set.insert 0 (getDepth ` fst ` set byIdentity))"
    by (intro Max_ge) auto
  with d show "((byIdentity, k), (byIdentity, i))
      \<in> measure (\<lambda>(m, i). Suc (Max (Set.insert 0 (getDepth ` fst ` set m))) - getDepth i)"
    by simp
qed

declare buildNode.simps [simp del]

definition rollup :: "changelog \<Rightarrow> string \<Rightarrow> rollup_entry" where
  "rollup cl rootIdentity =
     buildNode (group_by_identity (listByPrefix cl (rootIdentity @ ''%'') 1000)) rootIdentity"

text \<open>All entries that occur somewhere in a rollup tree.\<close>

fun rollup_rows :: "rollup_entry \<Rightarrow> changelog_row list" where
  "rollup_rows (RollupEntry i es cs) = es @ concat (map rollup_rows cs)"

section \<open>Notions used in the statements\<close>

subsection \<open>Auxiliary notions\<close>

text \<open>No two rows with the same port, no two rows with the same project.\<close>

definition unique_rows :: "table \<Rightarrow> bool" where
  "unique_rows t = (distinct (map port t) \<and> distinct (map project t))"

text \<open>The rows are unique and none of them is of the project: the state in which a row is inserted.\<close>

definition ready :: "string \<Rightarrow> state \<Rightarrow> bool" where
  "ready proj st = (unique_rows (db st) \<and> proj \<notin> project ` set (db st))"

text \<open>
  The identity of the specification: one to three segments separated by colons, each
  segment a non-empty run of characters from \<^verbatim>\<open>[A-Za-z0-9._-]\<close>.
\<close>

definition spec_identity :: "string \<Rightarrow> bool" where
  "spec_identity s =
     (let segments = split_on CHR '':'' s
      in 1 \<le> length segments \<and> length segments \<le> 3
         \<and> list_all (\<lambda>seg. seg \<noteq> [] \<and> list_all name_char seg) segments)"

text \<open>The row that a claim inserts.\<close>

definition new_row :: "env \<Rightarrow> string \<Rightarrow> int \<Rightarrow> int \<Rightarrow> row" where
  "new_row e proj requestingPid p =
     \<lparr>port = p, project = proj, pid = requestingPid, started = now e, last_seen = now e\<rparr>"

text \<open>\<^verbatim>\<open>pidValidation.pid || process.pid\<close>\<close>

definition requesting_pid :: "env \<Rightarrow> int option \<Rightarrow> int" where
  "requesting_pid e validPid =
     (case validPid of None \<Rightarrow> process_pid e | Some n \<Rightarrow> if n \<noteq> 0 then n else process_pid e)"



subsection \<open>Sample environments and tables\<close>

text \<open>A machine on which no process of interest runs and no port listens.\<close>

definition idle_env :: env where
  "idle_env = \<lparr>now = 1700000000000, ps_alive = (\<lambda>p. False), lsof_port = (\<lambda>p. False),
               lsof_scan = Some [], process_pid = 4242\<rparr>"

text \<open>The same machine with process 501 running.\<close>

definition owner_alive_env :: env where
  "owner_alive_env = \<lparr>now = 1700000000000, ps_alive = (\<lambda>p. p = 501), lsof_port = (\<lambda>p. False),
                      lsof_scan = Some [], process_pid = 4242\<rparr>"

definition myapp_row :: row where
  "myapp_row = \<lparr>port = 3100, project = ''myapp'', pid = 501,
                started = 1699999990000, last_seen = 1699999990000\<rparr>"

definition api_row :: row where
  "api_row = \<lparr>port = 3101, project = ''api'', pid = 502,
              started = 1699999995000, last_seen = 1699999995000\<rparr>"

definition one_row_state :: state where
  "one_row_state = \<lparr>db = [myapp_row], systemPortsCache = \<lparr>data = None, timestamp = 0\<rparr>\<rparr>"

definition two_row_state :: state where
  "two_row_state = \<lparr>db = [myapp_row, api_row], systemPortsCache = \<lparr>data = None, timestamp = 0\<rparr>\<rparr>"




text \<open>A claim without X-PID header.\<close>

definition claim_of :: "string \<Rightarrow> param \<Rightarrow> claim_request" where
  "claim_of name preferred = \<lparr>req_project = Str name, req_preferred = preferred, x_pid = Undefined\<rparr>"

subsection \<open>Sample changelogs\<close>

definition abc_options :: add_options where
  "abc_options = \<lparr>opt_identity = ''a:b:c'', opt_summary = ''Add token refresh'', opt_type = None,
     opt_description = None, opt_sessionId = None, opt_agentId = None, opt_metadata = None\<rparr>"

text \<open>The changelog after one entry was added for \<^verbatim>\<open>a:b:c\<close>.\<close>

definition abc_changelog :: changelog where
  "abc_changelog = snd (add 1700000000000 abc_options empty_changelog)"







section \<open>Properties\<close>

subsection \<open>Uniqueness of ports and projects\<close>



lemma set_insert_row [simp]: "set (insert_row r t) = Set.insert r (set t)"
  by (induction t) auto

lemma distinct_map_insert_row:
  "distinct (map f (insert_row r t)) = (f r \<notin> f ` set t \<and> distinct (map f t))"
  by (induction t) auto

lemma unique_rows_filter: "unique_rows t \<Longrightarrow> unique_rows (filter P t)"
  by (simp add: unique_rows_def distinct_map_filter)

lemma unique_rows_deleteByPort: "unique_rows t \<Longrightarrow> unique_rows (deleteByPort p t)"
  by (cases p) (simp_all add: deleteByPort_def unique_rows_filter)

lemma map_port_updateLastSeen [simp]: "map port (updateLastSeen ts p t) = map port t"
  by (induction t) (auto simp: updateLastSeen_def)

lemma map_project_updateLastSeen [simp]: "map project (updateLastSeen ts p t) = map project t"
  by (induction t) (auto simp: updateLastSeen_def)

lemma unique_rows_updateLastSeen: "unique_rows t \<Longrightarrow> unique_rows (updateLastSeen ts p t)"
  by (simp add: unique_rows_def)

lemma unique_rows_insert:
  "unique_rows t \<Longrightarrow> project r \<notin> project ` set t \<Longrightarrow> stmts_insert r t = Some t' \<Longrightarrow> unique_rows t'"
  by (auto simp: stmts_insert_def unique_rows_def distinct_map_insert_row split: if_splits)

lemma db_getSystemPorts [simp]: "db (snd (getSystemPorts e st)) = db st"
  by (simp add: getSystemPorts_def Let_def split: option.splits)

lemma db_findAvailablePort [simp]: "db (snd (findAvailablePort cfg e st)) = db st"
  by (simp add: findAvailablePort_def Let_def split: prod.splits)
     (metis db_getSystemPorts snd_conv)


lemma ready_filter: "ready proj st \<Longrightarrow> ready proj (st\<lparr>db := deleteByPort p (db st)\<rparr>)"
  using unique_rows_deleteByPort[of "db st" p]
  by (cases p) (auto simp: ready_def deleteByPort_def)

lemma ready_findAvailablePort: "ready proj st \<Longrightarrow> ready proj (snd (findAvailablePort cfg e st))"
  by (simp add: ready_def)

lemma skip_port_ready:
  "ready proj st \<Longrightarrow> skip_port cfg e pp st = (out, st') \<Longrightarrow> ready proj st' \<and> (\<forall>p. out \<noteq> Return p)"
  by (auto simp: skip_port_def split: if_splits prod.splits option.splits
           dest: ready_findAvailablePort[where cfg = cfg and e = e])

lemma try_insert_ready:
  assumes "ready proj st" "try_insert cfg e proj rp pp p st = (out, st')"
  shows "unique_rows (db st') \<and> ((\<exists>q. out = Return q) \<or> ready proj st')"
proof (cases "isPortInUseOnSystem e p")
  case True
  with assms(2) have "skip_port cfg e pp st = (out, st')" by (simp add: try_insert_def)
  from skip_port_ready[OF assms(1) this] show ?thesis by (simp add: ready_def)
next
  case False
  with assms show ?thesis
    using unique_rows_insert[of "db st" "\<lparr>port = p, project = proj, pid = rp,
                       started = now e, last_seen = now e\<rparr>"]
    by (auto simp: try_insert_def ready_def split: option.splits)
qed

lemma attempt_body_ready:
  assumes "ready proj st" "attempt_body cfg e proj rp pp st = (out, st')"
  shows "unique_rows (db st') \<and> ((\<exists>q. out = Return q) \<or> ready proj st')"
proof -
  obtain found st1 where f: "(if truthy pp then (pp, st) else findAvailablePort cfg e st) = (found, st1)"
    by (cases "(if truthy pp then (pp, st) else findAvailablePort cfg e st)") 
  have r1: "ready proj st1"
    using f assms(1) ready_findAvailablePort[of proj st cfg e] by (auto split: if_splits)
  show ?thesis
  proof (cases found)
    case None
    with assms(2) f r1 show ?thesis by (auto simp: attempt_body_def ready_def)
  next
    case (Some p)
    show ?thesis
    proof (cases "getByPort (db st1) (Some p)")
      case None
      with assms(2) f Some have "try_insert cfg e proj rp pp p st1 = (out, st')"
        by (simp add: attempt_body_def)
      with r1 show ?thesis by (rule try_insert_ready)
    next
      case (Some existing)
      note ex = this
      show ?thesis
      proof (cases "isProcessAlive e (pid existing)")
        case True
        with assms(2) f \<open>found = Some p\<close> ex have "skip_port cfg e pp st1 = (out, st')"
          by (simp add: attempt_body_def)
        from skip_port_ready[OF r1 this] show ?thesis by (simp add: ready_def)
      next
        case False
        with assms(2) f \<open>found = Some p\<close> ex
        have "try_insert cfg e proj rp pp p (st1\<lparr>db := deleteByPort (Some p) (db st1)\<rparr>) = (out, st')"
          by (simp add: attempt_body_def)
        with ready_filter[OF r1] show ?thesis by (rule try_insert_ready)
      qed
    qed
  qed
qed

lemma retry_loop_unique:
  "ready proj st \<Longrightarrow> unique_rows (db (snd (retry_loop cfg e proj rp k a pp st)))"
proof (induction k arbitrary: a pp st)
  case 0
  then show ?case by (simp add: ready_def)
next
  case (Suc k)
  obtain out st' where b: "attempt_body cfg e proj rp pp st = (out, st')"
    by (cases "attempt_body cfg e proj rp pp st")
  from attempt_body_ready[OF Suc.prems b]
  have u: "unique_rows (db st')" and r: "(\<exists>q. out = Return q) \<or> ready proj st'" by auto
  show ?case
  proof (cases out)
    case (Return q)
    with b u show ?thesis by simp
  next
    case (Throw err)
    with b u show ?thesis by simp
  next
    case (Continue pp')
    with r have "ready proj st'" by auto
    from Suc.IH[OF this] b Continue show ?thesis by simp
  qed
qed

lemma snd_assign_fresh:
  "\<exists>pt. snd (assign_fresh cfg e proj rp vp st) = snd (retry_loop cfg e proj rp 3 0 pt st)"
  by (auto simp: assign_fresh_def assignPortWithRetry_def Let_def split: prod.splits sum.splits option.splits)
     (metis snd_conv)+

lemma assign_fresh_unique:
  "ready proj st \<Longrightarrow> unique_rows (db (snd (assign_fresh cfg e proj rp vp st)))"
  using retry_loop_unique[of proj st cfg e rp 3 0] snd_assign_fresh[of cfg e proj rp vp st]
  by auto

lemma find_project_only:
  assumes "unique_rows t" "getByProject t p = Some x"
  shows "p \<notin> project ` set (deleteByPort (Some (port x)) t)"
proof
  assume "p \<in> project ` set (deleteByPort (Some (port x)) t)"
  then obtain y where y: "y \<in> set t" "port y \<noteq> port x" "project y = p"
    by (auto simp: deleteByPort_def)
  from assms(2) have x: "x \<in> set t" "project x = p"
    by (auto simp: getByProject_def find_Some_iff)
  from assms(1) have "inj_on project (set t)"
    by (simp add: unique_rows_def distinct_map)
  with x y have "x = y" by (auto dest: inj_onD)
  with y show False by simp
qed

lemma getByProject_None: "getByProject t p = None \<Longrightarrow> p \<notin> project ` set t"
  by (auto simp: getByProject_def find_None_iff)

lemma ports_request_unique:
  assumes "unique_rows (db st)"
  shows "unique_rows (db (snd (ports_request cfg e req st)))"
proof -
  { fix proj rp vp
    assume n: "getByProject (db st) proj = None"
    have "unique_rows (db (snd (assign_fresh cfg e proj rp vp st)))"
      using assms getByProject_None[OF n] by (intro assign_fresh_unique) (simp add: ready_def) }
  moreover
  { fix proj rp vp x
    assume s: "getByProject (db st) proj = Some x"
    have "unique_rows (db (snd (assign_fresh cfg e proj rp vp (st\<lparr>db := deleteByPort (Some (port x)) (db st)\<rparr>))))"
      using assms find_project_only[OF assms s]
      by (intro assign_fresh_unique) (simp add: ready_def unique_rows_deleteByPort) }
  ultimately show ?thesis
    using assms
    by (auto simp: ports_request_def Let_def unique_rows_updateLastSeen split: sum.splits option.splits)
qed

lemma ports_release_unique:
  "unique_rows (db st) \<Longrightarrow> unique_rows (db (snd (ports_release req st)))"
  by (auto simp: ports_release_def deleteByProject_def unique_rows_deleteByPort unique_rows_filter
           split: sum.splits)

lemma cleanup_loop_unique:
  "unique_rows t \<Longrightarrow> unique_rows (fst (cleanup_loop e es t freed))"
  by (induction es arbitrary: t freed) (auto simp: unique_rows_deleteByPort)

lemma cleanupStale_unique:
  "unique_rows (db st) \<Longrightarrow> unique_rows (db (snd (cleanupStale e st)))"
  using cleanup_loop_unique[of "db st" e "db st" "[]"]
  by (auto simp: cleanupStale_def split: prod.splits)

lemma step_unique: "unique_rows (db st) \<Longrightarrow> unique_rows (db (step cfg st eo))"
  by (cases eo; cases "snd eo")
     (auto simp: ports_request_unique ports_release_unique cleanupStale_unique)

lemma foldl_step_unique:
  "unique_rows (db st) \<Longrightarrow> unique_rows (db (foldl (step cfg) st ops))"
  by (induction ops arbitrary: st) (simp_all add: step_unique)

text \<open>
  C2: after any sequence of claims, releases and cleanup sweeps, served in any order from
  the empty table, no two rows of the table have the same port and no two have the same
  project.
\<close>

theorem table_rows_unique: "distinct (map port (db (run cfg ops))) \<and> distinct (map project (db (run cfg ops)))"
proof -
  have "unique_rows (db initial_state)" by (simp add: unique_rows_def initial_state_def)
  then have "unique_rows (db (run cfg ops))" unfolding run_def by (rule foldl_step_unique)
  then show ?thesis by (simp add: unique_rows_def)
qed


subsection \<open>Validation of requests\<close>

lemma status_assign_fresh: "status (fst (assign_fresh cfg e proj rp vp st)) \<noteq> 400"
  by (simp add: assign_fresh_def Let_def split: prod.splits sum.splits)

lemma status_ports_request:
  "(status (fst (ports_request cfg e req st)) = 400) =
   (isl (validateProjectName (req_project req)) \<or> isl (validatePid (x_pid req)) \<or>
    isl (validatePreferredPort (req_preferred req) (range_start cfg) (range_end cfg) (reserved cfg)))"
  by (auto simp: ports_request_def Let_def status_assign_fresh split: sum.splits option.splits)

lemma not_isl_validateProjectName:
  "(\<not> isl (validateProjectName p)) = (\<exists>s. p = Str s \<and> s \<noteq> [] \<and> length s \<le> 255 \<and> list_all name_char s)"
  by (cases p) (auto simp: PROJECT_NAME_REGEX_def PROJECT_NAME_MAX_LENGTH_def)

text \<open>
  C1, as amended: a claim request is answered with a status other than 400 exactly when its
  project is a string of 1 to 255 characters, all from \<^verbatim>\<open>[A-Za-z0-9._-]\<close>, and its
  X-PID header and preferred port pass their own validation. The character class has no
  colon, so of the identities \<^verbatim>\<open>project[:stack[:context]]\<close> only those of one segment
  pass.
\<close>

theorem claim_not_rejected_iff:
  "(status (fst (ports_request cfg e req st)) \<noteq> 400) =
   ((\<exists>s. req_project req = Str s \<and> s \<noteq> [] \<and> length s \<le> 255 \<and> list_all name_char s)
    \<and> \<not> isl (validatePid (x_pid req))
    \<and> \<not> isl (validatePreferredPort (req_preferred req) (range_start cfg) (range_end cfg) (reserved cfg)))"
  by (simp add: status_ports_request not_isl_validateProjectName)

theorem claim_not_rejected_witness:
  "status (fst (ports_request default_config idle_env
      \<lparr>req_project = Str ''my-app_v1.0'', req_preferred = Num 5000, x_pid = Num 12345\<rparr> initial_state)) \<noteq> 400"
  using claim_not_rejected_iff [of default_config idle_env
      "\<lparr>req_project = Str ''my-app_v1.0'', req_preferred = Num 5000, x_pid = Num 12345\<rparr>" initial_state]
  by (simp add: name_char_def default_config_def validatePreferredPort_def PID_MIN_def PID_MAX_def)

text \<open>
  The identity \<^verbatim>\<open>myapp:api\<close> has the shape of the specification and is rejected with
  status 400.
\<close>

theorem colon_identity_rejected:
  "spec_identity ''myapp:api'' \<and>
   status (fst (ports_request default_config idle_env
     \<lparr>req_project = Str ''myapp:api'', req_preferred = Undefined, x_pid = Undefined\<rparr> initial_state)) = 400"
  by (simp add: spec_identity_def name_char_def ports_request_def PROJECT_NAME_REGEX_def PROJECT_NAME_MAX_LENGTH_def)






subsection \<open>Release and cleanup\<close>





lemma cleanup_loop_eq:
  "cleanup_loop e es t freed =
     (filter (\<lambda>r. port r \<notin> port ` {x \<in> set es. \<not> isProcessAlive e (pid x)}) t,
      freed @ map (\<lambda>r. (port r, project r)) (filter (\<lambda>r. \<not> isProcessAlive e (pid r)) es))"
proof (induction es arbitrary: t freed)
  case Nil
  then show ?case by simp
next
  case (Cons x es)
  show ?case
    by (auto simp: Cons.IH deleteByPort_def intro!: filter_cong)
qed

text \<open>
  C8: a cleanup sweep leaves exactly the rows whose pid is alive, unchanged and in their
  order, and reports the port and project of every row it removed. The ports of the rows
  are distinct, as the primary key has it.
\<close>

theorem cleanup_removes_exactly_dead:
  assumes "distinct (map port (db st))"
  shows "db (snd (cleanupStale e st)) = filter (\<lambda>r. isProcessAlive e (pid r)) (db st)
       \<and> fst (cleanupStale e st) =
           map (\<lambda>r. (port r, project r)) (filter (\<lambda>r. \<not> isProcessAlive e (pid r)) (db st))"
proof -
  from assms have inj: "inj_on port (set (db st))" by (simp add: distinct_map)
  have "filter (\<lambda>r. port r \<notin> port ` {x \<in> set (db st). \<not> isProcessAlive e (pid x)}) (db st)
      = filter (\<lambda>r. isProcessAlive e (pid r)) (db st)"
    using inj by (intro filter_cong refl) (auto dest: inj_onD)
  then show ?thesis by (simp add: cleanupStale_def cleanup_loop_eq)
qed


theorem cleanup_removes_exactly_dead_witness:
  "distinct (map port (db two_row_state))
   \<and> db (snd (cleanupStale owner_alive_env two_row_state)) = [myapp_row]
   \<and> fst (cleanupStale owner_alive_env two_row_state) = [(3101, ''api'')]"
  using cleanup_removes_exactly_dead [of two_row_state owner_alive_env]
  by (simp add: two_row_state_def myapp_row_def api_row_def owner_alive_env_def isProcessAlive_def)

subsection \<open>Claims\<close>

lemma findAvailablePort_db: "findAvailablePort cfg e st = (found, st') \<Longrightarrow> db st' = db st"
  using db_findAvailablePort[of cfg e st] by simp

lemma skip_port_db:
  "skip_port cfg e pp st = (out, st') \<Longrightarrow> db st' = db st \<and> (\<forall>q. out \<noteq> Return q)"
  by (auto simp: skip_port_def split: if_splits prod.splits option.splits
           dest: findAvailablePort_db)

lemma try_insert_rows:
  "try_insert cfg e proj rp pp p st = (out, st') \<Longrightarrow>
     (case out of Return q \<Rightarrow> q = p \<and> db st' = insert_row (new_row e proj rp p) (db st)
      | _ \<Rightarrow> db st' = db st)"
  by (auto simp: try_insert_def new_row_def stmts_insert_def
           split: if_splits option.splits outcome.splits dest: skip_port_db)

lemma attempt_body_rows:
  assumes "attempt_body cfg e proj rp pp st = (out, st')"
  shows "\<exists>t1. set t1 \<subseteq> set (db st) \<and>
           (case out of Return q \<Rightarrow> db st' = insert_row (new_row e proj rp q) t1
            | _ \<Rightarrow> db st' = t1)"
proof -
  obtain found st1 where f: "(if truthy pp then (pp, st) else findAvailablePort cfg e st) = (found, st1)"
    by (cases "(if truthy pp then (pp, st) else findAvailablePort cfg e st)") 
  have d1: "db st1 = db st"
    using f by (auto split: if_splits dest: findAvailablePort_db)
  show ?thesis
  proof (cases found)
    case None
    with assms f d1 show ?thesis by (auto simp: attempt_body_def)
  next
    case (Some p)
    note found = this
    show ?thesis
    proof (cases "getByPort (db st1) (Some p)")
      case None
      with assms f found have "try_insert cfg e proj rp pp p st1 = (out, st')"
        by (simp add: attempt_body_def)
      from try_insert_rows[OF this] d1 show ?thesis
        by (intro exI[of _ "db st"]) (auto split: outcome.splits)
    next
      case (Some existing)
      note ex = this
      show ?thesis
      proof (cases "isProcessAlive e (pid existing)")
        case True
        with assms f found ex have "skip_port cfg e pp st1 = (out, st')"
          by (simp add: attempt_body_def)
        from skip_port_db[OF this] d1 show ?thesis
          by (intro exI[of _ "db st"]) (auto split: outcome.splits)
      next
        case False
        with assms f found ex
        have "try_insert cfg e proj rp pp p (st1\<lparr>db := deleteByPort (Some p) (db st1)\<rparr>) = (out, st')"
          by (simp add: attempt_body_def)
        from try_insert_rows[OF this] d1 show ?thesis
          by (intro exI[of _ "deleteByPort (Some p) (db st)"])
             (auto simp: deleteByPort_def split: outcome.splits)
      qed
    qed
  qed
qed

lemma retry_loop_rows:
  "retry_loop cfg e proj rp k a pp st = (res, st') \<Longrightarrow>
     \<exists>t1. set t1 \<subseteq> set (db st) \<and>
       (case res of Inr (q, n) \<Rightarrow> db st' = insert_row (new_row e proj rp q) t1
        | Inl err \<Rightarrow> db st' = t1)"
proof (induction k arbitrary: a pp st)
  case 0
  then show ?case by auto
next
  case (Suc k)
  obtain out st1 where b: "attempt_body cfg e proj rp pp st = (out, st1)"
    by (cases "attempt_body cfg e proj rp pp st")
  from attempt_body_rows[OF b] obtain t1 where t1: "set t1 \<subseteq> set (db st)"
    "(case out of Return q \<Rightarrow> db st1 = insert_row (new_row e proj rp q) t1 | _ \<Rightarrow> db st1 = t1)"
    by blast
  show ?case
  proof (cases out)
    case (Return q)
    with b t1 Suc.prems show ?thesis by auto
  next
    case (Throw err)
    with b t1 Suc.prems show ?thesis by auto
  next
    case (Continue pp')
    with b Suc.prems have "retry_loop cfg e proj rp k (Suc a) pp' st1 = (res, st')" by simp
    from Suc.IH[OF this] obtain t2 where t2: "set t2 \<subseteq> set (db st1)"
      "(case res of Inr (q, n) \<Rightarrow> db st' = insert_row (new_row e proj rp q) t2 | Inl err \<Rightarrow> db st' = t2)"
      by blast
    with t1 Continue show ?thesis by (intro exI[of _ t2]) auto
  qed
qed

lemma assign_fresh_rows:
  assumes "assign_fresh cfg e proj rp vp st = (resp, st')"
  shows "\<exists>t1. set t1 \<subseteq> set (db st) \<and>
           (case resp of
              PortReply q m ex \<Rightarrow> ex = None \<and> db st' = insert_row (new_row e proj rp q) t1
            | Failed err \<Rightarrow> db st' = t1
            | _ \<Rightarrow> False)"
proof -
  obtain pt res where r: "retry_loop cfg e proj rp 3 0 pt st = (res, st')"
    and resp: "resp = (case res of Inl err \<Rightarrow> Failed err
                        | Inr (p, n) \<Rightarrow> PortReply p (if truthy vp \<and> vp = Some p then AssignedPreferred
                 else AssignedSuccessfully) None)"
    using assms
    by (auto simp: assign_fresh_def assignPortWithRetry_def Let_def split: prod.splits sum.splits)
  from retry_loop_rows[OF r] resp show ?thesis
    by (auto split: sum.splits)
qed

lemma find_insert_row:
  "P r \<Longrightarrow> \<forall>x\<in>set t. \<not> P x \<Longrightarrow> find P (insert_row r t) = Some r"
  by (induction t) auto

lemma find_map_preserved:
  "(\<And>x. P (f x) = P x) \<Longrightarrow> find P (map f t) = map_option f (find P t)"
  by (induction t) auto


text \<open>
  C3: when the table has a row for the project of a valid claim and the pid of that row is
  alive, the reply is 200 with the port of that row and \<^verbatim>\<open>existing: true\<close>; the table
  afterwards is the table before with \<open>last_seen\<close> of that row set to the current time, so
  no row is added.
\<close>

theorem live_claim_is_idempotent:
  assumes "validateProjectName (req_project req) = Inr X"
      and "validatePid (x_pid req) = Inr vp"
      and "validatePreferredPort (req_preferred req) (range_start cfg) (range_end cfg) (reserved cfg) = Inr vport"
      and "getByProject (db st) X = Some r"
      and "isProcessAlive e (pid r)"
  shows "ports_request cfg e req st =
           (PortReply (port r) ExistingRenewed (Some True),
            st\<lparr>db := map (\<lambda>x. if port x = port r then x\<lparr>last_seen := now e\<rparr> else x) (db st)\<rparr>)
         \<and> r\<lparr>last_seen := now e\<rparr> \<in> set (db (snd (ports_request cfg e req st)))
         \<and> map port (db (snd (ports_request cfg e req st))) = map port (db st)
         \<and> map project (db (snd (ports_request cfg e req st))) = map project (db st)"
proof -
  from assms(4) have "r \<in> set (db st)"
    by (auto simp: getByProject_def find_Some_iff)
  then have "r\<lparr>last_seen := now e\<rparr> \<in> set (map (\<lambda>x. if port x = port r then x\<lparr>last_seen := now e\<rparr> else x) (db st))"
    by (auto simp: image_iff intro!: bexI[of _ r])
  moreover have "map port (map (\<lambda>x. if port x = port r then x\<lparr>last_seen := now e\<rparr> else x) (db st)) = map port (db st)"
    and "map project (map (\<lambda>x. if port x = port r then x\<lparr>last_seen := now e\<rparr> else x) (db st)) = map project (db st)"
    by (induction "db st") auto
  ultimately show ?thesis
    using assms by (simp add: ports_request_def Let_def updateLastSeen_def)
qed


theorem live_claim_is_idempotent_witness:
  "ports_request default_config owner_alive_env
      \<lparr>req_project = Str ''myapp'', req_preferred = Undefined, x_pid = Undefined\<rparr> two_row_state
    = (PortReply 3100 ExistingRenewed (Some True),
       two_row_state\<lparr>db := [myapp_row\<lparr>last_seen := 1700000000000\<rparr>, api_row]\<rparr>)"
  using live_claim_is_idempotent [of "\<lparr>req_project = Str ''myapp'', req_preferred = Undefined, x_pid = Undefined\<rparr>"
          "''myapp''" None default_config None two_row_state myapp_row owner_alive_env]
  by (simp add: two_row_state_def myapp_row_def api_row_def owner_alive_env_def isProcessAlive_def
        getByProject_def validatePreferredPort_def name_char_def
        PROJECT_NAME_REGEX_def PROJECT_NAME_MAX_LENGTH_def)

text \<open>
  The port that a successful claim returns is the port of the row that the table then holds
  for the project, so that the next claim of the project, its owner alive, returns it again.
\<close>

lemma claim_records_port:
  assumes "unique_rows (db st)"
      and "validateProjectName (req_project req) = Inr X"
      and "ports_request cfg e req st = (PortReply p m ex, st')"
  shows "\<exists>r. getByProject (db st') X = Some r \<and> port r = p"
proof -
  from assms(2,3) obtain vp vport where
    v: "validatePid (x_pid req) = Inr vp"
       "validatePreferredPort (req_preferred req) (range_start cfg) (range_end cfg) (reserved cfg) = Inr vport"
    by (auto simp: ports_request_def Let_def split: sum.splits)
  have fresh: "\<exists>r. getByProject (db st') X = Some r \<and> port r = p"
    if a: "assign_fresh cfg e X (requesting_pid e vp) vport st1 = (PortReply p m ex, st')"
      and absent: "X \<notin> project ` set (db st1)" for st1
  proof -
    from assign_fresh_rows[OF a] obtain t1 where
      "set t1 \<subseteq> set (db st1)" "db st' = insert_row (new_row e X (requesting_pid e vp) p) t1"
      by auto
    with absent have "getByProject (db st') X = Some (new_row e X (requesting_pid e vp) p)"
      unfolding getByProject_def by (auto intro!: find_insert_row simp: new_row_def)
    then show ?thesis by (simp add: new_row_def)
  qed
  show ?thesis
  proof (cases "getByProject (db st) X")
    case None
    with assms(2,3) v have "assign_fresh cfg e X (requesting_pid e vp) vport st = (PortReply p m ex, st')"
      by (simp add: ports_request_def Let_def requesting_pid_def)
    with getByProject_None[OF None] show ?thesis by (intro fresh)
  next
    case (Some r)
    show ?thesis
    proof (cases "isProcessAlive e (pid r)")
      case True
      with assms(2,3) v Some have p: "p = port r" and st': "db st' = updateLastSeen (now e) (port r) (db st)"
        by (auto simp: ports_request_def Let_def)
      have "getByProject (db st') X = map_option (\<lambda>x. if port x = port r then x\<lparr>last_seen := now e\<rparr> else x) (getByProject (db st) X)"
        unfolding st' getByProject_def updateLastSeen_def by (rule find_map_preserved) simp
      with Some p show ?thesis by simp
    next
      case False
      with assms(2,3) v Some
      have "assign_fresh cfg e X (requesting_pid e vp) vport (st\<lparr>db := deleteByPort (Some (port r)) (db st)\<rparr>)
              = (PortReply p m ex, st')"
        by (simp add: ports_request_def Let_def requesting_pid_def)
      moreover have "X \<notin> project ` set (db (st\<lparr>db := deleteByPort (Some (port r)) (db st)\<rparr>))"
        using find_project_only[OF assms(1) Some] by simp
      ultimately show ?thesis by (intro fresh)
    qed
  qed
qed


text \<open>Unfolding the handlers on the samples.\<close>

lemmas sample_defs = claim_of_def one_row_state_def myapp_row_def idle_env_def default_config_def

lemmas validation_defs = name_char_def PROJECT_NAME_REGEX_def PROJECT_NAME_MAX_LENGTH_def
  validatePreferredPort_def PID_MIN_def PID_MAX_def

lemmas handler_defs = ports_request_def getByProject_def isProcessAlive_def deleteByPort_def
  assign_fresh_def assignPortWithRetry_def eval_nat_numeral attempt_body_def
  findAvailablePort_def getAllPorts_def getSystemPorts_def Let_def scan_range.simps
  isPortInUseOnSystem_def getByPort_def try_insert_def stmts_insert_def skip_port_def
  SYSTEM_PORTS_CACHE_TTL_def

lemma stale_claim_example:
  "ports_request default_config idle_env (claim_of ''myapp'' Undefined) one_row_state =
    (PortReply 3100 AssignedSuccessfully None,
     \<lparr>db = [\<lparr>port = 3100, project = ''myapp'', pid = 4242, started = 1700000000000,
              last_seen = 1700000000000\<rparr>],
      systemPortsCache = \<lparr>data = Some [], timestamp = 1700000000000\<rparr>\<rparr>)"
  by (simp add: sample_defs validation_defs handler_defs)


text \<open>
  C4, as amended: when the table has a row for the project of a valid claim and the pid of
  that row is not alive, the reply is never a 400; a reply with status 200 carries the
  assigned port and no field \<^verbatim>\<open>existing\<close>, and the table then holds the new row of the
  project with that port, besides rows it held before other than the stale one (whose port
  may be the one assigned again); when the assignment fails with status 500 the stale row
  is gone all the same.
\<close>

theorem stale_claim_reassigns:
  assumes "validateProjectName (req_project req) = Inr X"
      and "validatePid (x_pid req) = Inr vp"
      and "validatePreferredPort (req_preferred req) (range_start cfg) (range_end cfg) (reserved cfg) = Inr vport"
      and "getByProject (db st) X = Some r"
      and "\<not> isProcessAlive e (pid r)"
  shows "case fst (ports_request cfg e req st) of
           PortReply q m ex \<Rightarrow>
             ex = None
             \<and> new_row e X (requesting_pid e vp) q \<in> set (db (snd (ports_request cfg e req st)))
             \<and> set (db (snd (ports_request cfg e req st)))
                 \<subseteq> Set.insert (new_row e X (requesting_pid e vp) q) {x \<in> set (db st). port x \<noteq> port r}
         | Failed err \<Rightarrow>
             set (db (snd (ports_request cfg e req st))) \<subseteq> {x \<in> set (db st). port x \<noteq> port r}
         | _ \<Rightarrow> False"
proof -
  let ?st1 = "st\<lparr>db := deleteByPort (Some (port r)) (db st)\<rparr>"
  have eq: "ports_request cfg e req st = assign_fresh cfg e X (requesting_pid e vp) vport ?st1"
    using assms by (simp add: ports_request_def Let_def requesting_pid_def)
  obtain resp st' where a: "assign_fresh cfg e X (requesting_pid e vp) vport ?st1 = (resp, st')"
    by (cases "assign_fresh cfg e X (requesting_pid e vp) vport ?st1")
  from assign_fresh_rows[OF a] obtain t1 where
    t1: "set t1 \<subseteq> set (db ?st1)" and
    c: "(case resp of
              PortReply q m ex \<Rightarrow> ex = None \<and> db st' = insert_row (new_row e X (requesting_pid e vp) q) t1
            | Failed err \<Rightarrow> db st' = t1
            | _ \<Rightarrow> False)"
    by blast
  from t1 have "set t1 \<subseteq> {x \<in> set (db st). port x \<noteq> port r}"
    by (auto simp: deleteByPort_def)
  with c show ?thesis
    unfolding eq a by (cases resp) auto
qed


theorem stale_claim_reassigns_witness:
  "fst (ports_request default_config idle_env (claim_of ''myapp'' Undefined) one_row_state)
       = PortReply 3100 AssignedSuccessfully None
   \<and> new_row idle_env ''myapp'' 4242 3100
       \<in> set (db (snd (ports_request default_config idle_env (claim_of ''myapp'' Undefined) one_row_state)))
   \<and> myapp_row \<notin> set (db (snd (ports_request default_config idle_env (claim_of ''myapp'' Undefined) one_row_state)))"
proof -
  have h1: "validateProjectName (req_project (claim_of ''myapp'' Undefined)) = Inr ''myapp''"
    by (simp add: claim_of_def validation_defs)
  have h2: "validatePid (x_pid (claim_of ''myapp'' Undefined)) = Inr None"
    by (simp add: claim_of_def)
  have h3: "validatePreferredPort (req_preferred (claim_of ''myapp'' Undefined))
              (range_start default_config) (range_end default_config) (reserved default_config) = Inr None"
    by (simp add: claim_of_def validation_defs)
  have h4: "getByProject (db one_row_state) ''myapp'' = Some myapp_row"
    by (simp add: getByProject_def one_row_state_def myapp_row_def)
  have h5: "\<not> isProcessAlive idle_env (pid myapp_row)"
    by (simp add: isProcessAlive_def idle_env_def)
  have rp: "requesting_pid idle_env None = 4242"
    by (simp add: requesting_pid_def idle_env_def)
  from stale_claim_reassigns [OF h1 h2 h3 h4 h5] show ?thesis
    unfolding rp by (auto simp: stale_claim_example myapp_row_def new_row_def)
qed


text \<open>
  The project \<^verbatim>\<open>myapp\<close> has a row whose pid is dead; the reply to its claim is
  \<^verbatim>\<open>{port: 3100, message}\<close>, without \<^verbatim>\<open>existing: false\<close>.
\<close>

theorem stale_claim_reply_lacks_existing:
  "getByProject (db one_row_state) ''myapp'' = Some myapp_row
   \<and> \<not> isProcessAlive idle_env (pid myapp_row)
   \<and> fst (ports_request default_config idle_env (claim_of ''myapp'' Undefined) one_row_state)
       = PortReply 3100 AssignedSuccessfully None
   \<and> fst (ports_request default_config idle_env (claim_of ''myapp'' Undefined) one_row_state)
       \<noteq> PortReply 3100 AssignedSuccessfully (Some False)"
  by (simp add: stale_claim_example)
     (simp add: getByProject_def one_row_state_def myapp_row_def isProcessAlive_def idle_env_def)


subsection \<open>The search for a port\<close>




























subsection \<open>Changelog queries\<close>

lemma abc_changelog_rows:
  "rows abc_changelog = [\<lparr>row_id = 1, identity = ''a:b:c'', session_id = None, agent_id = None,
     row_type = ''feature'', summary = ''Add token refresh'', description = None, metadata = None,
     created_at = 1700000000000\<rparr>]"
  by (simp add: abc_changelog_def add_def abc_options_def empty_changelog_def or_null_def Let_def)

text \<open>
  C9: one entry is added under \<^verbatim>\<open>a:b:c\<close> to an empty changelog. The ancestors returned
  are \<^verbatim>\<open>a:b\<close> and \<^verbatim>\<open>a\<close>, one row is stored, the tree queries for both ancestors and
  the rollup of \<^verbatim>\<open>a:b\<close> show the entry; the rollup of \<^verbatim>\<open>a\<close> is a node without entries
  and without children, in which the entry does not occur.
\<close>

theorem rollup_misses_grandchild:
  "ancestors (fst (add 1700000000000 abc_options empty_changelog)) = [''a:b'', ''a'']
   \<and> length (rows abc_changelog) = 1
   \<and> entries (listTree abc_changelog ''a:b'' None) = rows abc_changelog
   \<and> entries (listTree abc_changelog ''a'' None) = rows abc_changelog
   \<and> rollup_rows (rollup abc_changelog ''a:b'') = rows abc_changelog
   \<and> rollup abc_changelog ''a'' = RollupEntry ''a'' [] []
   \<and> rollup_rows (rollup abc_changelog ''a'') = []"
  by (simp add: abc_changelog_rows add_def abc_options_def Let_def
        getAncestors_def getParentIdentity_def lastIndexOf_def
        listTree_def listByPrefix_def lower_def limit_rows_def order_by_created_desc_def
        rollup_def group_by_identity_def buildNode.simps map_get_or_empty_def
        startsWith_def getDepth_def)

text \<open>The ancestors of any identity of three segments, the first not empty.\<close>

lemma takeWhile_until: "c \<notin> set xs \<Longrightarrow> takeWhile (\<lambda>x. x \<noteq> c) (xs @ c # ys) = xs"
  by (induction xs) auto

lemma getParentIdentity_append:
  "CHR '':'' \<notin> set v \<Longrightarrow> getParentIdentity (u @ CHR '':'' # v) = Some u"
proof -
  assume v: "CHR '':'' \<notin> set v"
  then have "takeWhile (\<lambda>x. x \<noteq> CHR '':'') (rev v @ CHR '':'' # rev u) = rev v"
    using takeWhile_until[of "CHR '':''" "rev v" "rev u"] by simp
  then show ?thesis
    by (simp add: getParentIdentity_def lastIndexOf_def Let_def)
qed

lemma getParentIdentity_no_colon:
  "CHR '':'' \<notin> set u \<Longrightarrow> getParentIdentity u = None"
  by (simp add: getParentIdentity_def lastIndexOf_def)

lemma getAncestors_three_segments:
  assumes "CHR '':'' \<notin> set a" "CHR '':'' \<notin> set b" "CHR '':'' \<notin> set c" "a \<noteq> []"
  shows "getAncestors (a @ '':'' @ b @ '':'' @ c) = [a @ '':'' @ b, a]"
proof -
  have "getParentIdentity (a @ '':'' @ b @ '':'' @ c) = Some (a @ '':'' @ b)"
    using getParentIdentity_append[OF assms(3), of "a @ '':'' @ b"] by simp
  moreover have "getParentIdentity (a @ '':'' @ b) = Some a"
    using getParentIdentity_append[OF assms(2), of a] by simp
  ultimately show ?thesis
    using assms(1,4) by (simp add: getAncestors_def getParentIdentity_no_colon)
qed





lemma set_order_by_created_desc [simp]: "set (order_by_created_desc rs) = set rs"
  by (simp add: order_by_created_desc_def)

lemma length_order_by_created_desc [simp]: "length (order_by_created_desc rs) = length rs"
  by (simp add: order_by_created_desc_def)











end
